theory Spec2Isabelle
  imports Main "HOL-Library.Sublist"
begin

section \<open>Values, errors and strings\<close>

text \<open>
  The accessor of \<^verbatim>\<open>config_profile/Config.py\<close> answers lookups from the process
  environment and from a flat dictionary filled from settings files. Values of the
  environment are strings; values of a settings file are what the file parser hands over:
  strings, booleans and numbers. Python's \<^verbatim>\<open>None\<close> is the \<open>None\<close> of an option type.

  A string is the list of the bytes of its UTF-8 encoding: an ASCII character is one
  byte below 128, and bytes from 128 on occur only inside the encoding of a non-ASCII
  character. Prefix, substring and equality tests and the replacement of one ASCII
  character by another are the same on bytes as on characters.
\<close>

datatype pyfloat = Finite int int | Infinity bool | NaN

datatype pyval = VStr string | VBool bool | VInt int | VFloat pyfloat

datatype py_error =
    TypeError
  | NameError
  | AttributeError
  | FileNotFoundError
  | RequiredConfigKeyException string
  | OtherError string

datatype out_event = Print string | LoggerInfo string | LoggerWarning string

text \<open>A float \<open>Finite m e\<close> stands for \<open>m * 2 ^ e\<close>; it is zero exactly when \<open>m\<close> is.\<close>

fun float_nonzero :: "pyfloat \<Rightarrow> bool" where
  "float_nonzero (Finite m e) = (m \<noteq> 0)"
| "float_nonzero (Infinity s) = True"
| "float_nonzero NaN = True"

text \<open>The truth value Python gives an object in \<^verbatim>\<open>if v:\<close>.\<close>

fun truthy :: "pyval \<Rightarrow> bool" where
  "truthy (VStr s) = (s \<noteq> [])"
| "truthy (VBool b) = b"
| "truthy (VInt i) = (i \<noteq> 0)"
| "truthy (VFloat f) = float_nonzero f"

fun truthy_opt :: "pyval option \<Rightarrow> bool" where
  "truthy_opt None = False"
| "truthy_opt (Some v) = truthy v"

fun truthy_str :: "string option \<Rightarrow> bool" where
  "truthy_str None = False"
| "truthy_str (Some s) = (s \<noteq> [])"

definition lower_char :: "char \<Rightarrow> char" where
  "lower_char c =
     (let n = (of_char c :: nat) in if 65 \<le> n \<and> n \<le> 90 then char_of (n + 32) else c)"

definition upper_char :: "char \<Rightarrow> char" where
  "upper_char c =
     (let n = (of_char c :: nat) in if 97 \<le> n \<and> n \<le> 122 then char_of (n - 32) else c)"

definition ascii_lower :: "string \<Rightarrow> string" where
  "ascii_lower s = map lower_char s"

definition ascii_upper :: "string \<Rightarrow> string" where
  "ascii_upper s = map upper_char s"

definition is_ascii :: "string \<Rightarrow> bool" where
  "is_ascii s = list_all (\<lambda>c. (of_char c :: nat) < 128) s"

text \<open>
  \<^verbatim>\<open>str.lower\<close> and \<^verbatim>\<open>str.upper\<close> are built-ins of the language and follow the
  Unicode case mappings: they change non-ASCII letters, and may change the length of a
  string. On a string of ASCII characters they map the letters A-Z and a-z and keep every
  other character. What they return for a string with a non-ASCII character is not
  computed here but taken as a parameter, the two fields of the record below.
\<close>

record pystr =
  unicode_lower :: "string \<Rightarrow> string"
  unicode_upper :: "string \<Rightarrow> string"

definition lower :: "pystr \<Rightarrow> string \<Rightarrow> string" where
  "lower ps s = (if is_ascii s then ascii_lower s else unicode_lower ps s)"

definition upper :: "pystr \<Rightarrow> string \<Rightarrow> string" where
  "upper ps s = (if is_ascii s then ascii_upper s else unicode_upper ps s)"

text \<open>\<^verbatim>\<open>s.replace(old, new)\<close> for one-character \<open>old\<close> and \<open>new\<close>.\<close>

definition replace :: "char \<Rightarrow> char \<Rightarrow> string \<Rightarrow> string" where
  "replace old new s = map (\<lambda>c. if c = old then new else c) s"

text \<open>
  The method \<^verbatim>\<open>v.lower()\<close> on an arbitrary value: only strings have it, on a boolean
  or a number the attribute lookup raises \<^verbatim>\<open>AttributeError\<close>.
\<close>

fun py_lower :: "pystr \<Rightarrow> pyval \<Rightarrow> py_error + string" where
  "py_lower ps (VStr s) = Inr (lower ps s)"
| "py_lower ps (VBool b) = Inl AttributeError"
| "py_lower ps (VInt i) = Inl AttributeError"
| "py_lower ps (VFloat f) = Inl AttributeError"

section \<open>The environment\<close>

text \<open>
  \<^verbatim>\<open>os.environ\<close>, read afresh at each lookup, is a map from names to strings
  (POSIX: names are case-sensitive).
\<close>

type_synonym environment = "string \<rightharpoonup> string"

text \<open>
  \<^verbatim>\<open>
  @classmethod
  def get_env_value(cls, key, default=None):
      v = os.environ.get(key)
      if v:
          return v
      v = os.environ.get(key.upper().replace(".", "_"))
      if v:
          return v
      return default
  \<close>
\<close>

definition get_env_value :: "pystr \<Rightarrow> environment \<Rightarrow> string \<Rightarrow> string option \<Rightarrow> string option" where
  "get_env_value ps environ key dflt =
     (let v = environ key in
      if truthy_str v then v
      else let v = environ (replace (CHR ''.'') (CHR ''_'') (upper ps key)) in
        if truthy_str v then v
        else dflt)"

section \<open>The Config object\<close>

text \<open>The instance holds one attribute, the dictionary \<^verbatim>\<open>self._config\<close>.\<close>

record config_obj =
  config :: "string \<rightharpoonup> pyval"

text \<open>
  \<^verbatim>\<open>
  def get_profile(self):
      profile = self.get_env_value("application.profile")
      if profile:
          return profile.lower()
      return "local"
  \<close>
\<close>

definition get_profile :: "pystr \<Rightarrow> config_obj \<Rightarrow> environment \<Rightarrow> string" where
  "get_profile ps self environ =
     (let profile = get_env_value ps environ ''application.profile'' None in
      if truthy_str profile then lower ps (the profile) else ''local'')"

text \<open>
  \<^verbatim>\<open>
  def get_dataset_name(self, base_name="network_intel"):
      profile = self.get_profile()
      if profile in ["prod", "staging", "ci"]:
          return base_name
      elif profile in ["local"]:
          return f"{base_name}_qa"
      else:
          return f"{base_name}_{profile}"
  \<close>
\<close>

definition get_dataset_name :: "pystr \<Rightarrow> config_obj \<Rightarrow> environment \<Rightarrow> string \<Rightarrow> string" where
  "get_dataset_name ps self environ base_name =
     (let profile = get_profile ps self environ in
      if profile \<in> set [''prod'', ''staging'', ''ci''] then base_name
      else if profile \<in> set [''local''] then base_name @ ''_qa''
      else base_name @ ''_'' @ profile)"

text \<open>The call without an argument takes the default of the parameter.\<close>

definition get_dataset_name_default :: "pystr \<Rightarrow> config_obj \<Rightarrow> environment \<Rightarrow> string" where
  "get_dataset_name_default ps self environ = get_dataset_name ps self environ ''network_intel''"

text \<open>
  \<^verbatim>\<open>
  def get(self, key, default=None):
      v = self.get_env_value(key)
      if v:
          return v
      v = self._config.get(key)
      if v:
          return v
      return default
  \<close>
\<close>

definition get :: "pystr \<Rightarrow> config_obj \<Rightarrow> environment \<Rightarrow> string \<Rightarrow> pyval option \<Rightarrow> pyval option" where
  "get ps self environ key dflt =
     (let v = map_option VStr (get_env_value ps environ key None) in
      if truthy_opt v then v
      else let v = config self key in
        if truthy_opt v then v
        else dflt)"

text \<open>
  \<^verbatim>\<open>
  def get_required(self, key):
      v = self.get(key)
      if v is None:
          raise RequiredConfigKeyException(f"Required key [{key}] not found in config")
      return v
  \<close>
\<close>

definition get_required :: "pystr \<Rightarrow> config_obj \<Rightarrow> environment \<Rightarrow> string \<Rightarrow> py_error + pyval" where
  "get_required ps self environ key =
     (case get ps self environ key None of
        None \<Rightarrow> Inl (RequiredConfigKeyException (''Required key ['' @ key @ ''] not found in config''))
      | Some v \<Rightarrow> Inr v)"

text \<open>
  \<^verbatim>\<open>
  def get_boolean(self, key, default=None):
      v = self.get(key)
      if isinstance(v, bool):
          return v
      if v:
          return v.lower() == "true"
      return default

  def get_boolean_required(self, key):
      v = self.get_required(key)
      return v.lower() == "true"
  \<close>
\<close>

definition get_boolean ::
  "pystr \<Rightarrow> config_obj \<Rightarrow> environment \<Rightarrow> string \<Rightarrow> bool option \<Rightarrow> py_error + bool option" where
  "get_boolean ps self environ key dflt =
     (case get ps self environ key None of
        Some (VBool b) \<Rightarrow> Inr (Some b)
      | v \<Rightarrow>
          if truthy_opt v then
            (case py_lower ps (the v) of
               Inl e \<Rightarrow> Inl e
             | Inr s \<Rightarrow> Inr (Some (s = ''true'')))
          else Inr dflt)"

definition get_boolean_required ::
  "pystr \<Rightarrow> config_obj \<Rightarrow> environment \<Rightarrow> string \<Rightarrow> py_error + bool" where
  "get_boolean_required ps self environ key =
     (case get_required ps self environ key of
        Inl e \<Rightarrow> Inl e
      | Inr v \<Rightarrow>
          (case py_lower ps v of
             Inl e \<Rightarrow> Inl e
           | Inr s \<Rightarrow> Inr (s = ''true'')))"

definition is_enabled ::
  "pystr \<Rightarrow> config_obj \<Rightarrow> environment \<Rightarrow> string \<Rightarrow> py_error + bool option" where
  "is_enabled ps self environ key = get_boolean ps self environ key (Some False)"

definition has_feature ::
  "pystr \<Rightarrow> config_obj \<Rightarrow> environment \<Rightarrow> string \<Rightarrow> py_error + bool option" where
  "has_feature ps self environ feature_name =
     is_enabled ps self environ (''feature.'' @ feature_name @ ''.enabled'')"

section \<open>Construction\<close>

text \<open>
  Construction reads settings files through collaborators that are not part of this
  module: the parser \<^verbatim>\<open>FileUtil.load_toml_to_dict\<close>, the flattener
  \<^verbatim>\<open>DictUtil.flatten_dict\<close> and the path functions of \<^verbatim>\<open>os.path\<close>. They are
  parameters of the model, collected in a record; \<open>'d\<close> is the type of the nested
  dictionary the parser returns. The parser raises \<^verbatim>\<open>FileNotFoundError\<close> for a missing
  file and some other error for a file it cannot parse. \<open>root_folder_of n\<close> is the
  attribute read \<^verbatim>\<open>n.root_folder\<close> on the object a name \<open>n\<close> is bound to.
\<close>

record 'd runtime =
  load_toml_to_dict :: "string \<Rightarrow> py_error + 'd"
  flatten_dict :: "'d \<Rightarrow> (string \<times> pyval) list"
  normpath :: "string \<Rightarrow> string"
  path_join :: "string \<Rightarrow> string \<Rightarrow> string"
  abspath :: "string \<Rightarrow> string"
  root_folder_of :: "string \<Rightarrow> py_error + string"

text \<open>
  The names the module binds at top level (its imports, \<^verbatim>\<open>logger\<close>, the exception
  class, \<^verbatim>\<open>build_path\<close> and \<^verbatim>\<open>Config\<close>), and the local names of \<^verbatim>\<open>build_path\<close>.
  A name read in a function body is looked up among the locals, then the globals, then
  the built-ins; no built-in is called \<^verbatim>\<open>cls\<close>, so for that name the first two decide.
\<close>

definition module_globals :: "string list" where
  "module_globals =
     [''logging'', ''os'', ''Optional'', ''DictUtil'', ''FileUtil'', ''singleton'', ''Settings'',
      ''logger'', ''RequiredConfigKeyException'', ''build_path'', ''Config'']"

definition build_path_locals :: "string list" where
  "build_path_locals = [''filename'', ''rootdir'', ''normalized'']"

definition name_bound :: "string list \<Rightarrow> string \<Rightarrow> bool" where
  "name_bound locals n = (n \<in> set locals \<or> n \<in> set module_globals)"

text \<open>
  \<^verbatim>\<open>
  def build_path(filename, rootdir):
      normalized = os.path.normpath(filename)
      if not normalized.startswith(rootdir):
          if normalized.startswith("/") or normalized.startswith("\\"):
              normalized = normalized[1:]
      return os.path.abspath(os.path.join(cls.root_folder, normalized))
  \<close>
  The last line reads the name \<^verbatim>\<open>cls\<close>, which raises \<^verbatim>\<open>NameError\<close> when unbound.
\<close>

definition build_path :: "'d runtime \<Rightarrow> string \<Rightarrow> string \<Rightarrow> py_error + string" where
  "build_path rt filename rootdir =
     (let normalized = normpath rt filename;
          normalized =
            (if \<not> prefix rootdir normalized then
               (if prefix ''/'' normalized \<or> prefix [CHR 0x5C] normalized
                then drop 1 normalized else normalized)
             else normalized)
      in if name_bound build_path_locals ''cls'' then
           (case root_folder_of rt ''cls'' of
              Inl e \<Rightarrow> Inl e
            | Inr root \<Rightarrow> Inr (abspath rt (path_join rt root normalized)))
         else Inl NameError)"

text \<open>
  The loop that merges the flattened entries:
  \<^verbatim>\<open>
  for k, v in DictUtil.flatten_dict(values, sep=".").items():
      self._config[k.lower()] = v
  \<close>
\<close>

fun merge_items ::
  "pystr \<Rightarrow> (string \<rightharpoonup> pyval) \<Rightarrow> (string \<times> pyval) list \<Rightarrow> (string \<rightharpoonup> pyval)" where
  "merge_items ps m [] = m"
| "merge_items ps m ((k, v) # kvs) = merge_items ps (m(lower ps k \<mapsto> v)) kvs"

text \<open>
  The body of \<^verbatim>\<open>_populate_with_values_from_yml\<close> after the path is built: the
  \<^verbatim>\<open>try\<close> block and its handler. It returns the updated object and what was
  printed and logged.
  \<^verbatim>\<open>
  try:
      values = FileUtil.load_toml_to_dict(config_fullpath)
      print(f"Populating config with {config_fullpath}")
      logger.info(f"Populating config with {config_fullpath}")
      for k, v in DictUtil.flatten_dict(values, sep=".").items():
          self._config[k.lower()] = v
  except FileNotFoundError:
      if "application-local.yml" not in config_file:
          print(f"Config file not found: {config_fullpath}")
          logger.warning(f"Config file not found: {config_fullpath}")
  \<close>
\<close>

definition populate_try ::
  "pystr \<Rightarrow> 'd runtime \<Rightarrow> config_obj \<Rightarrow> string \<Rightarrow> string \<Rightarrow> py_error + (config_obj \<times> out_event list)" where
  "populate_try ps rt self config_file config_fullpath =
     (case load_toml_to_dict rt config_fullpath of
        Inr vals \<Rightarrow>
          Inr (self\<lparr>config := merge_items ps (config self) (flatten_dict rt vals)\<rparr>,
               [Print (''Populating config with '' @ config_fullpath),
                LoggerInfo (''Populating config with '' @ config_fullpath)])
      | Inl FileNotFoundError \<Rightarrow>
          (if \<not> sublist ''application-local.yml'' config_file then
             Inr (self,
                  [Print (''Config file not found: '' @ config_fullpath),
                   LoggerWarning (''Config file not found: '' @ config_fullpath)])
           else Inr (self, []))
      | Inl e \<Rightarrow> Inl e)"

text \<open>
  \<^verbatim>\<open>
  def _populate_with_values_from_yml(self, config_file, rootdir):
      config_fullpath = build_path(config_file, rootdir)
      try: ...
  \<close>
  The call of \<^verbatim>\<open>build_path\<close> stands before the \<^verbatim>\<open>try\<close>, so what it raises leaves the
  method.
\<close>

definition populate_with_values_from_yml ::
  "pystr \<Rightarrow> 'd runtime \<Rightarrow> config_obj \<Rightarrow> string \<Rightarrow> string \<Rightarrow> py_error + (config_obj \<times> out_event list)" where
  "populate_with_values_from_yml ps rt self config_file rootdir =
     (case build_path rt config_file rootdir of
        Inl e \<Rightarrow> Inl e
      | Inr config_fullpath \<Rightarrow> populate_try ps rt self config_file config_fullpath)"

text \<open>
  A call \<^verbatim>\<open>self._populate_with_values_from_yml(a1, ..., an)\<close> with positional
  arguments: both parameters are required, so any other number of arguments raises
  \<^verbatim>\<open>TypeError\<close> before the body runs.
\<close>

definition call_populate ::
  "pystr \<Rightarrow> 'd runtime \<Rightarrow> config_obj \<Rightarrow> string list \<Rightarrow> py_error + (config_obj \<times> out_event list)" where
  "call_populate ps rt self args =
     (case args of
        [config_file, rootdir] \<Rightarrow> populate_with_values_from_yml ps rt self config_file rootdir
      | _ \<Rightarrow> Inl TypeError)"

text \<open>
  \<^verbatim>\<open>
  def __init__(self, *args, **kwargs):
      self._config = {}
      self._populate_with_values_from_yml("resources/application.yml")
      profile = self.get_profile()
      self._populate_with_values_from_yml(f"resources/application-{profile}.yml")
  \<close>
  The positional and keyword arguments are accepted and never read. The class is wrapped
  by the decorator \<^verbatim>\<open>singleton\<close> of another package, which runs the constructor for the
  first instance; the model is of the constructor.
\<close>

definition init ::
  "pystr \<Rightarrow> 'd runtime \<Rightarrow> environment \<Rightarrow> pyval list \<Rightarrow> (string \<times> pyval) list
     \<Rightarrow> py_error + (config_obj \<times> out_event list)" where
  "init ps rt environ args kwargs =
     (let self = \<lparr>config = Map.empty\<rparr> in
      case call_populate ps rt self [''resources/application.yml''] of
        Inl e \<Rightarrow> Inl e
      | Inr (self1, out1) \<Rightarrow>
          (let profile = get_profile ps self1 environ in
           case call_populate ps rt self1 [''resources/application-'' @ profile @ ''.yml''] of
             Inl e \<Rightarrow> Inl e
           | Inr (self2, out2) \<Rightarrow> Inr (self2, out1 @ out2)))"

section \<open>A concrete run-time for evaluation\<close>

text \<open>
  Two settings files as the tests describe them, already flat: the base file and the file
  of profile \<^verbatim>\<open>test\<close>, which redefines one key. Every other path is a missing file,
  except one that does not parse.
\<close>

definition fixture_rt :: "((string \<times> pyval) list) runtime" where
  "fixture_rt =
     \<lparr>load_toml_to_dict =
        (\<lambda>p. if p = ''/app/resources/application.yml'' then
                Inr [(''top_level_key.some_sub_key'', VStr ''a value''),
                     (''top_level_key.key_to_be_overwritten'', VStr ''original'')]
              else if p = ''/app/resources/application-test.yml'' then
                Inr [(''Top_Level_Key.Key_To_Be_Overwritten'', VStr ''I have been overwritten'')]
              else if p = ''/app/resources/application-broken.yml'' then
                Inl (OtherError ''TomlDecodeError'')
              else Inl FileNotFoundError),
      flatten_dict = (\<lambda>d. d),
      normpath = (\<lambda>p. p),
      path_join = (\<lambda>a b. a @ ''/'' @ b),
      abspath = (\<lambda>p. p),
      root_folder_of = (\<lambda>n. Inl AttributeError)\<rparr>"

section \<open>A concrete string library for evaluation\<close>

text \<open>
  A closed term needs a value for the two parameters of \<open>lower\<close> and \<open>upper\<close>. The
  examples below are on ASCII strings, where the parameters are not consulted: each
  example has the same value for every choice of them, as the lemmas of the next section
  show for the strings involved.
\<close>

definition fixture_str :: pystr where
  "fixture_str = \<lparr>unicode_lower = (\<lambda>s. s), unicode_upper = (\<lambda>s. s)\<rparr>"

section \<open>Facts about the string functions\<close>

lemma lower_char_idem: "lower_char (lower_char c) = lower_char c"
  by (simp add: lower_char_def Let_def)

lemma lower_char_ascii: "(of_char c :: nat) < 128 \<Longrightarrow> (of_char (lower_char c) :: nat) < 128"
  by (simp add: lower_char_def Let_def)

lemma is_ascii_ascii_lower: "is_ascii s \<Longrightarrow> is_ascii (ascii_lower s)"
  by (induction s) (simp_all add: is_ascii_def ascii_lower_def lower_char_ascii)

lemma ascii_lower_idem: "ascii_lower (ascii_lower s) = ascii_lower s"
  by (simp add: ascii_lower_def lower_char_idem)

text \<open>On ASCII strings lowercasing does not depend on the parameters, and is idempotent.\<close>

lemma lower_on_ascii: "is_ascii s \<Longrightarrow> lower ps s = ascii_lower s"
  by (simp add: lower_def)

lemma upper_on_ascii: "is_ascii s \<Longrightarrow> upper ps s = ascii_upper s"
  by (simp add: upper_def)

lemma lower_idem_on_ascii: "is_ascii s \<Longrightarrow> lower ps (lower ps s) = lower ps s"
  by (simp add: lower_on_ascii is_ascii_ascii_lower ascii_lower_idem)

lemma lower_eval: "is_ascii s \<Longrightarrow> ascii_lower s = t \<Longrightarrow> lower ps s = t"
  by (simp add: lower_def)

lemma alias_eval:
  "is_ascii s \<Longrightarrow> replace (CHR ''.'') (CHR ''_'') (ascii_upper s) = t \<Longrightarrow>
   replace (CHR ''.'') (CHR ''_'') (upper ps s) = t"
  by (simp add: upper_def)

text \<open>Names of environment variables and lowercased strings used in the examples below.\<close>

lemma alias_profile:
  "replace (CHR ''.'') (CHR ''_'') (upper ps ''application.profile'') = ''APPLICATION_PROFILE''"
  by (rule alias_eval; code_simp)

lemma alias_abc: "replace (CHR ''.'') (CHR ''_'') (upper ps ''a.b.c'') = ''A_B_C''"
  by (rule alias_eval; code_simp)

lemma alias_db_url: "replace (CHR ''.'') (CHR ''_'') (upper ps ''db.url'') = ''DB_URL''"
  by (rule alias_eval; code_simp)

lemma lower_Test: "lower ps ''Test'' = ''test''"
  by (rule lower_eval; code_simp)

lemma lower_dev: "lower ps ''dev'' = ''dev''"
  by (rule lower_eval; code_simp)

lemma lower_prod: "lower ps ''prod'' = ''prod''"
  by (rule lower_eval; code_simp)

lemma lower_PROD: "lower ps ''PROD'' = ''prod''"
  by (rule lower_eval; code_simp)

lemma lower_TRUE: "lower ps ''TRUE'' = ''true''"
  by (rule lower_eval; code_simp)

lemma lower_yes: "lower ps ''yes'' = ''yes''"
  by (rule lower_eval; code_simp)

lemma lower_Server_Port: "lower ps ''Server.Port'' = ''server.port''"
  by (rule lower_eval; code_simp)

lemma lower_server_port: "lower ps ''server.port'' = ''server.port''"
  by (rule lower_eval; code_simp)

section \<open>Facts about the merge loop\<close>

lemma merge_items_append:
  "merge_items ps m (xs @ ys) = merge_items ps (merge_items ps m xs) ys"
  by (induction xs arbitrary: m) auto

lemma dom_merge_items: "dom (merge_items ps m kvs) = dom m \<union> lower ps ` fst ` set kvs"
proof (induction kvs arbitrary: m)
  case Nil
  show ?case by simp
next
  case (Cons kv kvs)
  obtain k v where kv: "kv = (k, v)" by (cases kv)
  have "dom (merge_items ps (m(lower ps k \<mapsto> v)) kvs)
          = dom (m(lower ps k \<mapsto> v)) \<union> lower ps ` fst ` set kvs"
    by (rule Cons.IH)
  also have "\<dots> = dom m \<union> lower ps ` fst ` set ((k, v) # kvs)"
    by simp
  finally show ?case by (simp add: kv)
qed

lemma merge_items_untouched:
  "key \<notin> lower ps ` fst ` set kvs \<Longrightarrow> merge_items ps m kvs key = m key"
  by (induction kvs arbitrary: m) auto

lemma merge_items_overrides:
  "key \<in> lower ps ` fst ` set kvs \<Longrightarrow> merge_items ps m kvs key = merge_items ps m' kvs key"
proof (induction kvs arbitrary: m m')
  case Nil
  then show ?case by simp
next
  case (Cons kv kvs)
  obtain k v where kv: "kv = (k, v)" by (cases kv)
  show ?case
  proof (cases "key \<in> lower ps ` fst ` set kvs")
    case True
    then show ?thesis using Cons.IH kv by simp
  next
    case False
    with Cons.prems kv have "key = lower ps k" by auto
    with False kv show ?thesis by (simp add: merge_items_untouched)
  qed
qed

text \<open>
  A key that lowercasing changes is not among the stored keys, provided lowercasing a
  lowercased file key changes nothing.
\<close>

lemma not_lower_not_stored:
  assumes "lower ps key \<noteq> key"
    and "\<forall>k \<in> fst ` set kvs. lower ps (lower ps k) = lower ps k"
  shows "key \<notin> lower ps ` fst ` set kvs"
proof
  assume "key \<in> lower ps ` fst ` set kvs"
  then obtain k where k: "k \<in> fst ` set kvs" and key: "key = lower ps k" by auto
  from assms(2) k have "lower ps (lower ps k) = lower ps k" by blast
  with key assms(1) show False by simp
qed

text \<open>
  Run on the entries of a base file and then on those of a profile file, the loop keeps
  the profile file's value for every key the profile file defines, and the base file's
  value for every other key.
\<close>

lemma merge_loop_profile_wins:
  "key \<in> lower ps ` fst ` set prof \<Longrightarrow>
   merge_items ps (merge_items ps m base) prof key = merge_items ps Map.empty prof key"
  by (rule merge_items_overrides)

lemma merge_loop_base_kept:
  "key \<notin> lower ps ` fst ` set prof \<Longrightarrow>
   merge_items ps (merge_items ps m base) prof key = merge_items ps m base key"
  by (rule merge_items_untouched)

section \<open>Facts about the try block\<close>

text \<open>
  Once a path is at hand, the block treats a missing file as an empty contribution, with
  a warning unless the file name contains \<^verbatim>\<open>application-local.yml\<close>, and lets every
  other error of the parser through.
\<close>

lemma populate_try_missing_file:
  "load_toml_to_dict rt config_fullpath = Inl FileNotFoundError \<Longrightarrow>
   populate_try ps rt self config_file config_fullpath =
     Inr (self,
          if sublist ''application-local.yml'' config_file then []
          else [Print (''Config file not found: '' @ config_fullpath),
                LoggerWarning (''Config file not found: '' @ config_fullpath)])"
  by (simp add: populate_try_def)

lemma populate_try_other_error:
  "load_toml_to_dict rt config_fullpath = Inl e \<Longrightarrow> e \<noteq> FileNotFoundError \<Longrightarrow>
   populate_try ps rt self config_file config_fullpath = Inl e"
  by (cases e) (simp_all add: populate_try_def)

lemma populate_try_loaded:
  "load_toml_to_dict rt config_fullpath = Inr vals \<Longrightarrow>
   populate_try ps rt self config_file config_fullpath =
     Inr (self\<lparr>config := merge_items ps (config self) (flatten_dict rt vals)\<rparr>,
          [Print (''Populating config with '' @ config_fullpath),
           LoggerInfo (''Populating config with '' @ config_fullpath)])"
  by (simp add: populate_try_def)

section \<open>Facts about lookups\<close>

lemma get_env_value_None_truthy:
  "get_env_value ps environ key None = Some e \<Longrightarrow> e \<noteq> []"
  by (auto simp: get_env_value_def Let_def split: if_splits option.splits)

lemma get_None_truthy: "get ps self environ key None = Some v \<Longrightarrow> truthy v"
  by (auto simp: get_def Let_def split: if_splits)

lemma get_None_VStr:
  "get ps self environ key None = Some (VStr s) \<Longrightarrow> s \<noteq> []"
  using get_None_truthy by fastforce

lemma env_empty_any: "get_env_value ps Map.empty key None = None"
  by (simp add: get_env_value_def)

lemma get_file_only:
  "get ps \<lparr>config = [''k'' \<mapsto> v]\<rparr> Map.empty ''k'' None = (if truthy v then Some v else None)"
  by (simp add: get_def get_env_value_def)

lemma get_env_only:
  "get ps \<lparr>config = Map.empty\<rparr> [''k'' \<mapsto> ''yes''] ''k'' None = Some (VStr ''yes'')"
  by (simp add: get_def get_env_value_def)

lemma profile_prod:
  "get_profile ps \<lparr>config = Map.empty\<rparr> [''APPLICATION_PROFILE'' \<mapsto> ''prod''] = ''prod''"
  by (simp add: get_profile_def get_env_value_def alias_profile lower_prod)

lemma profile_dev:
  "get_profile ps \<lparr>config = Map.empty\<rparr> [''APPLICATION_PROFILE'' \<mapsto> ''dev''] = ''dev''"
  by (simp add: get_profile_def get_env_value_def alias_profile lower_dev)

lemma profile_unset: "get_profile ps \<lparr>config = Map.empty\<rparr> Map.empty = ''local''"
  by (simp add: get_profile_def get_env_value_def)

text \<open>
  \<open>get_boolean_required\<close> has no test for a boolean before it calls \<^verbatim>\<open>lower\<close>, unlike
  \<open>get_boolean\<close>: on a resolved boolean it raises.
\<close>

lemma get_boolean_required_on_boolean:
  "get ps self environ key None = Some (VBool b) \<Longrightarrow>
   get_boolean_required ps self environ key = Inl AttributeError"
  by (simp add: get_boolean_required_def get_required_def)

section \<open>Environment before files\<close>

text \<open>
  Claim C1. For every key with a non-empty value in the environment, under the literal
  name or under the uppercased name with underscores for dots, \<open>get\<close> returns the value
  of the environment, whatever the object's dictionary holds for the key and whatever the
  default is: the literal name's value when that is non-empty, the other name's value
  when the literal name is unset or empty. The uppercased name is what \<^verbatim>\<open>str.upper\<close>
  gives, for every behaviour of it on non-ASCII keys.
\<close>

theorem get_env_precedence:
  "(environ key = Some e \<and> e \<noteq> [] \<longrightarrow> get ps self environ key dflt = Some (VStr e))
   \<and> ((environ key = None \<or> environ key = Some [])
        \<and> environ (replace (CHR ''.'') (CHR ''_'') (upper ps key)) = Some e \<and> e \<noteq> []
      \<longrightarrow> get ps self environ key dflt = Some (VStr e))"
  by (auto simp: get_def get_env_value_def Let_def)

text \<open>
  The key \<^verbatim>\<open>db.url\<close> is in the dictionary and in the environment, once under its own
  name and once as \<^verbatim>\<open>DB_URL\<close>.
\<close>

theorem get_env_precedence_witness:
  "get fixture_str \<lparr>config = [''db.url'' \<mapsto> VStr ''from-file'']\<rparr> [''db.url'' \<mapsto> ''from-env'']
      ''db.url'' None = Some (VStr ''from-env'')
   \<and> get fixture_str \<lparr>config = [''db.url'' \<mapsto> VStr ''from-file'']\<rparr> [''DB_URL'' \<mapsto> ''from-alias'']
      ''db.url'' None = Some (VStr ''from-alias'')"
proof -
  have 1: "get fixture_str \<lparr>config = [''db.url'' \<mapsto> VStr ''from-file'']\<rparr>
      [''db.url'' \<mapsto> ''from-env''] ''db.url'' None = Some (VStr ''from-env'')"
    using get_env_precedence
      [where ps = fixture_str and environ = "[''db.url'' \<mapsto> ''from-env'']" and key = "''db.url''"
         and e = "''from-env''" and self = "\<lparr>config = [''db.url'' \<mapsto> VStr ''from-file'']\<rparr>"
         and dflt = None]
    by simp
  have 2: "get fixture_str \<lparr>config = [''db.url'' \<mapsto> VStr ''from-file'']\<rparr>
      [''DB_URL'' \<mapsto> ''from-alias''] ''db.url'' None = Some (VStr ''from-alias'')"
    using get_env_precedence
      [where ps = fixture_str and environ = "[''DB_URL'' \<mapsto> ''from-alias'']" and key = "''db.url''"
         and e = "''from-alias''" and self = "\<lparr>config = [''db.url'' \<mapsto> VStr ''from-file'']\<rparr>"
         and dflt = None]
    by (simp add: alias_db_url)
  from 1 2 show ?thesis by simp
qed

section \<open>Construction as written\<close>

text \<open>
  Claim C2. Construction with a resource directory should load the base file, resolve the
  profile and merge the profile file over the base file. Evaluated on a run-time in which
  both files exist, with the profile set to \<^verbatim>\<open>test\<close> and the resource directory passed
  as the keyword argument the tests use, the constructor raises \<^verbatim>\<open>TypeError\<close> at its
  first call of \<^verbatim>\<open>_populate_with_values_from_yml\<close>, which lacks the second argument:
  nothing is loaded and no object results.
\<close>

theorem init_with_resource_dir_raises:
  "init ps fixture_rt [''APPLICATION_PROFILE'' \<mapsto> ''test''] []
      [(''resource_dir'', VStr ''/app/resources'')] = Inl TypeError"
  by (simp add: init_def call_populate_def)

section \<open>Keys of the dictionary and keys of a lookup\<close>

text \<open>
  Claim C3, amended. The keys the merge loop writes are lowercased: after the loop the
  dictionary has its old keys and the lowercased forms of the keys of the entries. When
  the environment yields nothing, \<open>get\<close> looks the key up as it is given, without
  lowercasing it, and returns the stored value if that is truthy and the default
  otherwise. So in a dictionary filled by the loop, \<open>get\<close> returns the default for a key
  that is not the lowercased form of a key of the entries; such is every key that
  lowercasing changes, as long as lowercasing leaves the lowercased keys of the entries
  as they are.
\<close>

theorem get_looks_up_key_as_given:
  "dom (merge_items ps m kvs) = dom m \<union> lower ps ` fst ` set kvs
   \<and> (get_env_value ps environ key None = None
      \<longrightarrow> get ps self environ key dflt
            = (if truthy_opt (config self key) then config self key else dflt))
   \<and> (get_env_value ps environ key None = None
        \<and> config self = merge_items ps Map.empty kvs
        \<and> key \<notin> lower ps ` fst ` set kvs
      \<longrightarrow> get ps self environ key dflt = dflt)
   \<and> (get_env_value ps environ key None = None
        \<and> config self = merge_items ps Map.empty kvs
        \<and> lower ps key \<noteq> key
        \<and> (\<forall>k \<in> fst ` set kvs. lower ps (lower ps k) = lower ps k)
      \<longrightarrow> get ps self environ key dflt = dflt)"
proof (intro conjI impI)
  show "dom (merge_items ps m kvs) = dom m \<union> lower ps ` fst ` set kvs"
    by (rule dom_merge_items)
  show "get ps self environ key dflt
          = (if truthy_opt (config self key) then config self key else dflt)"
    if "get_env_value ps environ key None = None"
    using that by (simp add: get_def)
  show "get ps self environ key dflt = dflt"
    if h: "get_env_value ps environ key None = None
        \<and> config self = merge_items ps Map.empty kvs
        \<and> key \<notin> lower ps ` fst ` set kvs"
  proof -
    from h have "config self key = None" by (simp add: merge_items_untouched)
    with h show ?thesis by (simp add: get_def)
  qed
  show "get ps self environ key dflt = dflt"
    if h: "get_env_value ps environ key None = None
        \<and> config self = merge_items ps Map.empty kvs
        \<and> lower ps key \<noteq> key
        \<and> (\<forall>k \<in> fst ` set kvs. lower ps (lower ps k) = lower ps k)"
  proof -
    from h have "key \<notin> lower ps ` fst ` set kvs" by (simp add: not_lower_not_stored)
    then have "config self key = None" using h by (simp add: merge_items_untouched)
    with h show ?thesis by (simp add: get_def)
  qed
qed

text \<open>
  A file defines \<^verbatim>\<open>Server.Port\<close>; the loop stores it as \<^verbatim>\<open>server.port\<close>. The lowercase
  key retrieves the value; a key the file does not have and the key as the file spells it
  get the default.
\<close>

theorem get_looks_up_key_as_given_witness:
  "dom (merge_items fixture_str Map.empty [(''Server.Port'', VStr ''8080'')]) = {''server.port''}
   \<and> get fixture_str \<lparr>config = merge_items fixture_str Map.empty [(''Server.Port'', VStr ''8080'')]\<rparr>
        Map.empty ''server.port'' None = Some (VStr ''8080'')
   \<and> get fixture_str \<lparr>config = merge_items fixture_str Map.empty [(''Server.Port'', VStr ''8080'')]\<rparr>
        Map.empty ''other.key'' (Some (VStr ''fallback'')) = Some (VStr ''fallback'')
   \<and> get fixture_str \<lparr>config = merge_items fixture_str Map.empty [(''Server.Port'', VStr ''8080'')]\<rparr>
        Map.empty ''Server.Port'' (Some (VStr ''fallback'')) = Some (VStr ''fallback'')"
proof -
  note T = get_looks_up_key_as_given
    [where ps = fixture_str and m = Map.empty and kvs = "[(''Server.Port'', VStr ''8080'')]"
       and environ = Map.empty
       and self = "\<lparr>config = merge_items fixture_str Map.empty [(''Server.Port'', VStr ''8080'')]\<rparr>"]
  have 1: "dom (merge_items fixture_str Map.empty [(''Server.Port'', VStr ''8080'')])
             = {''server.port''}"
    using T [THEN conjunct1] by (simp add: lower_Server_Port)
  have 2: "get fixture_str
        \<lparr>config = merge_items fixture_str Map.empty [(''Server.Port'', VStr ''8080'')]\<rparr>
        Map.empty ''server.port'' None = Some (VStr ''8080'')"
    using T [where key = "''server.port''" and dflt = None, THEN conjunct2, THEN conjunct1]
    by (simp add: env_empty_any lower_Server_Port)
  have 3: "get fixture_str
        \<lparr>config = merge_items fixture_str Map.empty [(''Server.Port'', VStr ''8080'')]\<rparr>
        Map.empty ''other.key'' (Some (VStr ''fallback'')) = Some (VStr ''fallback'')"
    using T [where key = "''other.key''" and dflt = "Some (VStr ''fallback'')",
             THEN conjunct2, THEN conjunct2, THEN conjunct1]
    by (simp add: env_empty_any lower_Server_Port)
  have 4: "get fixture_str
        \<lparr>config = merge_items fixture_str Map.empty [(''Server.Port'', VStr ''8080'')]\<rparr>
        Map.empty ''Server.Port'' (Some (VStr ''fallback'')) = Some (VStr ''fallback'')"
    using T [where key = "''Server.Port''" and dflt = "Some (VStr ''fallback'')",
             THEN conjunct2, THEN conjunct2, THEN conjunct2]
    by (simp add: env_empty_any lower_Server_Port lower_server_port)
  from 1 2 3 4 show ?thesis by simp
qed

text \<open>
  The claim as first stated has \<open>get\<close> look up the lowercased key. With the dictionary
  above and an empty environment the value sits under the lowercased key, and \<open>get\<close> on
  the mixed-case key returns \<open>None\<close>.
\<close>

theorem get_mixed_case_key_counterexample:
  "merge_items fixture_str Map.empty [(''Server.Port'', VStr ''8080'')]
       (lower fixture_str ''Server.Port'') = Some (VStr ''8080'')
   \<and> get_env_value fixture_str Map.empty ''Server.Port'' None = None
   \<and> get fixture_str \<lparr>config = merge_items fixture_str Map.empty [(''Server.Port'', VStr ''8080'')]\<rparr>
        Map.empty ''Server.Port'' None = None"
  by (simp add: get_def get_env_value_def lower_Server_Port)

section \<open>Missing and malformed files\<close>

text \<open>
  Claim C4. A missing settings file should not be fatal during construction. Evaluated
  on a run-time in which the file of profile \<^verbatim>\<open>dev\<close> is missing: the method that loads
  it raises \<^verbatim>\<open>NameError\<close> while building the path, before the \<^verbatim>\<open>try\<close> block that would
  handle the missing file, and the constructor raises \<^verbatim>\<open>TypeError\<close>.
\<close>

theorem populate_missing_file_raises:
  "load_toml_to_dict fixture_rt ''/app/resources/application-dev.yml'' = Inl FileNotFoundError
   \<and> populate_with_values_from_yml ps fixture_rt \<lparr>config = Map.empty\<rparr>
        ''resources/application-dev.yml'' ''/app'' = Inl NameError
   \<and> init ps fixture_rt [''APPLICATION_PROFILE'' \<mapsto> ''dev''] [] [] = Inl TypeError"
  by (simp add: init_def call_populate_def populate_with_values_from_yml_def build_path_def
      name_bound_def build_path_locals_def module_globals_def fixture_rt_def)

section \<open>Boolean conversion\<close>

text \<open>
  Claim C5, amended. \<open>get_boolean\<close> does not raise on a resolved value that is a boolean
  or a string: it returns a boolean as it is and, for a string, whether its lowercased
  form is \<^verbatim>\<open>true\<close>; with no resolved value it returns its default.
  \<open>get_boolean_required\<close> does not raise on a resolved string: it returns whether the
  lowercased form is \<^verbatim>\<open>true\<close>. On a resolved number, an integer or a float, both raise
  \<^verbatim>\<open>AttributeError\<close>, since a number has no method \<^verbatim>\<open>lower\<close>. Nothing is said here of
  \<open>get_boolean_required\<close> on a resolved boolean.
\<close>

theorem get_boolean_by_type:
  "(get ps self environ key None = Some (VBool b)
      \<longrightarrow> get_boolean ps self environ key dflt = Inr (Some b))
   \<and> (get ps self environ key None = Some (VStr s)
      \<longrightarrow> get_boolean ps self environ key dflt = Inr (Some (lower ps s = ''true''))
          \<and> get_boolean_required ps self environ key = Inr (lower ps s = ''true''))
   \<and> (get ps self environ key None = None \<longrightarrow> get_boolean ps self environ key dflt = Inr dflt)
   \<and> (get ps self environ key None = Some (VInt i)
        \<or> get ps self environ key None = Some (VFloat f)
      \<longrightarrow> get_boolean ps self environ key dflt = Inl AttributeError
          \<and> get_boolean_required ps self environ key = Inl AttributeError)"
proof (intro conjI impI)
  show "get_boolean ps self environ key dflt = Inr (Some b)"
    if "get ps self environ key None = Some (VBool b)"
    using that by (simp add: get_boolean_def)
  show "get_boolean ps self environ key dflt = Inr (Some (lower ps s = ''true''))"
    if "get ps self environ key None = Some (VStr s)"
    using that get_None_VStr[OF that] by (simp add: get_boolean_def)
  show "get_boolean_required ps self environ key = Inr (lower ps s = ''true'')"
    if "get ps self environ key None = Some (VStr s)"
    using that by (simp add: get_boolean_required_def get_required_def)
  show "get_boolean ps self environ key dflt = Inr dflt"
    if "get ps self environ key None = None"
    using that by (simp add: get_boolean_def)
  show "get_boolean ps self environ key dflt = Inl AttributeError"
    if "get ps self environ key None = Some (VInt i)
        \<or> get ps self environ key None = Some (VFloat f)"
    using that get_None_truthy[of ps self environ key] by (auto simp: get_boolean_def)
  show "get_boolean_required ps self environ key = Inl AttributeError"
    if "get ps self environ key None = Some (VInt i)
        \<or> get ps self environ key None = Some (VFloat f)"
    using that by (auto simp: get_boolean_required_def get_required_def)
qed

text \<open>
  A boolean \<^verbatim>\<open>True\<close> from a file, the string \<^verbatim>\<open>TRUE\<close> from a file, the string \<^verbatim>\<open>yes\<close>
  from the environment, a stored \<^verbatim>\<open>False\<close> (which \<open>get\<close> does not return, so the default
  is the result) and the float 1.5.
\<close>

theorem get_boolean_by_type_witness:
  "get_boolean fixture_str \<lparr>config = [''k'' \<mapsto> VBool True]\<rparr> Map.empty ''k'' None = Inr (Some True)
   \<and> get_boolean fixture_str \<lparr>config = [''k'' \<mapsto> VStr ''TRUE'']\<rparr> Map.empty ''k'' (Some False)
       = Inr (Some True)
   \<and> get_boolean_required fixture_str \<lparr>config = Map.empty\<rparr> [''k'' \<mapsto> ''yes''] ''k'' = Inr False
   \<and> get_boolean fixture_str \<lparr>config = [''k'' \<mapsto> VBool False]\<rparr> Map.empty ''k'' (Some True)
       = Inr (Some True)
   \<and> get_boolean fixture_str \<lparr>config = [''k'' \<mapsto> VFloat (Finite 3 (-1))]\<rparr> Map.empty ''k'' None
       = Inl AttributeError"
proof -
  have 1: "get_boolean fixture_str \<lparr>config = [''k'' \<mapsto> VBool True]\<rparr> Map.empty ''k'' None
             = Inr (Some True)"
    using get_boolean_by_type
      [where ps = fixture_str and self = "\<lparr>config = [''k'' \<mapsto> VBool True]\<rparr>"
         and environ = Map.empty and key = "''k''" and b = True and dflt = None]
    by (simp add: get_file_only)
  have 2: "get_boolean fixture_str \<lparr>config = [''k'' \<mapsto> VStr ''TRUE'']\<rparr> Map.empty ''k'' (Some False)
             = Inr (Some True)"
    using get_boolean_by_type
      [where ps = fixture_str and self = "\<lparr>config = [''k'' \<mapsto> VStr ''TRUE'']\<rparr>"
         and environ = Map.empty and key = "''k''" and s = "''TRUE''" and dflt = "Some False"]
    by (simp add: get_file_only lower_TRUE)
  have 3: "get_boolean_required fixture_str \<lparr>config = Map.empty\<rparr> [''k'' \<mapsto> ''yes''] ''k''
             = Inr False"
    using get_boolean_by_type
      [where ps = fixture_str and self = "\<lparr>config = Map.empty\<rparr>"
         and environ = "[''k'' \<mapsto> ''yes'']" and key = "''k''" and s = "''yes''"]
    by (simp add: get_env_only lower_yes)
  have 4: "get_boolean fixture_str \<lparr>config = [''k'' \<mapsto> VBool False]\<rparr> Map.empty ''k'' (Some True)
             = Inr (Some True)"
    using get_boolean_by_type
      [where ps = fixture_str and self = "\<lparr>config = [''k'' \<mapsto> VBool False]\<rparr>"
         and environ = Map.empty and key = "''k''" and dflt = "Some True"]
    by (simp add: get_file_only)
  have 5: "get_boolean fixture_str \<lparr>config = [''k'' \<mapsto> VFloat (Finite 3 (-1))]\<rparr> Map.empty ''k'' None
             = Inl AttributeError"
    using get_boolean_by_type
      [where ps = fixture_str and self = "\<lparr>config = [''k'' \<mapsto> VFloat (Finite 3 (-1))]\<rparr>"
         and environ = Map.empty and key = "''k''" and dflt = None and f = "Finite 3 (-1)"]
    by (simp add: get_file_only)
  from 1 2 3 4 5 show ?thesis by simp
qed

text \<open>
  The claim as first stated has boolean conversion never raise, numbers included. A port
  number from a file is resolved by \<open>get\<close>, and both conversions raise on it.
\<close>

theorem get_boolean_number_counterexample:
  "get fixture_str \<lparr>config = [''server.port'' \<mapsto> VInt 8080]\<rparr> Map.empty ''server.port'' None
       = Some (VInt 8080)
   \<and> get_boolean fixture_str \<lparr>config = [''server.port'' \<mapsto> VInt 8080]\<rparr> Map.empty
        ''server.port'' (Some False) = Inl AttributeError
   \<and> get_boolean_required fixture_str \<lparr>config = [''server.port'' \<mapsto> VInt 8080]\<rparr> Map.empty
        ''server.port'' = Inl AttributeError"
  by (simp add: get_boolean_def get_boolean_required_def get_required_def get_def get_env_value_def)

section \<open>Falsy values in the dictionary\<close>

text \<open>
  Claim C6, amended. For every key whose stored value is falsy (the empty string, the
  boolean false, zero) and for every default, \<open>get\<close> treats the value as absent: its
  result is the one it has without the entry. When the environment yields no non-empty
  value for the key the result is the default, otherwise it is the environment's value,
  which is non-empty; so a stored empty string is never what \<open>get\<close> returns.
\<close>

theorem get_falsy_file_value_is_absent:
  assumes "config self key = Some fv" and "\<not> truthy fv"
  shows "get ps self environ key dflt
           = get ps (self\<lparr>config := (config self)(key := None)\<rparr>) environ key dflt
         \<and> (get_env_value ps environ key None = None \<longrightarrow> get ps self environ key dflt = dflt)
         \<and> (\<forall>e. get_env_value ps environ key None = Some e
               \<longrightarrow> e \<noteq> [] \<and> get ps self environ key dflt = Some (VStr e))"
proof (intro conjI impI allI)
  show "get ps self environ key dflt
          = get ps (self\<lparr>config := (config self)(key := None)\<rparr>) environ key dflt"
    using assms by (simp add: get_def Let_def)
  show "get ps self environ key dflt = dflt" if "get_env_value ps environ key None = None"
    using assms that by (simp add: get_def)
  show "e \<noteq> []" if "get_env_value ps environ key None = Some e" for e
    using that by (rule get_env_value_None_truthy)
  show "get ps self environ key dflt = Some (VStr e)"
    if "get_env_value ps environ key None = Some e" for e
    using that get_env_value_None_truthy[OF that] by (simp add: get_def)
qed

text \<open>An empty string, a false and a zero in the dictionary, with an empty environment.\<close>

theorem get_falsy_file_value_is_absent_witness:
  "get fixture_str \<lparr>config = [''name'' \<mapsto> VStr '''']\<rparr> Map.empty ''name''
      (Some (VStr ''fallback'')) = Some (VStr ''fallback'')
   \<and> get fixture_str \<lparr>config = [''name'' \<mapsto> VBool False]\<rparr> Map.empty ''name'' None = None
   \<and> get fixture_str \<lparr>config = [''name'' \<mapsto> VInt 0]\<rparr> Map.empty ''name'' (Some (VInt 7))
       = Some (VInt 7)"
proof -
  have 1: "get fixture_str \<lparr>config = [''name'' \<mapsto> VStr '''']\<rparr> Map.empty ''name''
      (Some (VStr ''fallback'')) = Some (VStr ''fallback'')"
    using get_falsy_file_value_is_absent
      [where ps = fixture_str and self = "\<lparr>config = [''name'' \<mapsto> VStr '''']\<rparr>"
         and key = "''name''" and fv = "VStr ''''" and environ = Map.empty
         and dflt = "Some (VStr ''fallback'')", THEN conjunct2, THEN conjunct1]
    by (simp add: env_empty_any)
  have 2: "get fixture_str \<lparr>config = [''name'' \<mapsto> VBool False]\<rparr> Map.empty ''name'' None = None"
    using get_falsy_file_value_is_absent
      [where ps = fixture_str and self = "\<lparr>config = [''name'' \<mapsto> VBool False]\<rparr>"
         and key = "''name''" and fv = "VBool False" and environ = Map.empty
         and dflt = None, THEN conjunct2, THEN conjunct1]
    by (simp add: env_empty_any)
  have 3: "get fixture_str \<lparr>config = [''name'' \<mapsto> VInt 0]\<rparr> Map.empty ''name'' (Some (VInt 7))
             = Some (VInt 7)"
    using get_falsy_file_value_is_absent
      [where ps = fixture_str and self = "\<lparr>config = [''name'' \<mapsto> VInt 0]\<rparr>"
         and key = "''name''" and fv = "VInt 0" and environ = Map.empty
         and dflt = "Some (VInt 7)", THEN conjunct2, THEN conjunct1]
    by (simp add: env_empty_any)
  from 1 2 3 show ?thesis by simp
qed

text \<open>
  The claim as first stated has \<open>get\<close> return the default for every such key. With the
  key also set in the environment, \<open>get\<close> returns the environment's value and not the
  default.
\<close>

theorem get_falsy_with_environment_counterexample:
  "config \<lparr>config = [''name'' \<mapsto> VStr '''']\<rparr> ''name'' = Some (VStr '''')
   \<and> \<not> truthy (VStr '''')
   \<and> get fixture_str \<lparr>config = [''name'' \<mapsto> VStr '''']\<rparr> [''name'' \<mapsto> ''from-env''] ''name''
        (Some (VStr ''fallback'')) = Some (VStr ''from-env'')"
  by (simp add: get_def get_env_value_def)

section \<open>Names of environment variables\<close>

text \<open>
  Claim C7. \<open>get_env_value\<close> returns the value the environment has under the literal key
  when that is present and non-empty; otherwise the value under the uppercased key with
  every dot replaced by an underscore when that is present and non-empty; otherwise the
  default of the caller. The uppercased key is what \<^verbatim>\<open>str.upper\<close> gives, for every
  behaviour of it on non-ASCII keys.
\<close>

theorem get_env_value_lookup_order:
  "(environ key = Some e \<and> e \<noteq> [] \<longrightarrow> get_env_value ps environ key dflt = Some e)
   \<and> ((environ key = None \<or> environ key = Some [])
        \<and> environ (replace (CHR ''.'') (CHR ''_'') (upper ps key)) = Some e \<and> e \<noteq> []
      \<longrightarrow> get_env_value ps environ key dflt = Some e)
   \<and> ((environ key = None \<or> environ key = Some [])
        \<and> (environ (replace (CHR ''.'') (CHR ''_'') (upper ps key)) = None
             \<or> environ (replace (CHR ''.'') (CHR ''_'') (upper ps key)) = Some [])
      \<longrightarrow> get_env_value ps environ key dflt = dflt)"
  by (auto simp: get_env_value_def Let_def)

text \<open>
  The key \<^verbatim>\<open>a.b.c\<close> with both names set, with the literal name empty and \<^verbatim>\<open>A_B_C\<close>
  set, and with nothing but an empty literal name.
\<close>

theorem get_env_value_lookup_order_witness:
  "get_env_value fixture_str [''a.b.c'' \<mapsto> ''literal'', ''A_B_C'' \<mapsto> ''alias''] ''a.b.c'' None
     = Some ''literal''
   \<and> get_env_value fixture_str [''a.b.c'' \<mapsto> '''', ''A_B_C'' \<mapsto> ''alias''] ''a.b.c'' None
     = Some ''alias''
   \<and> get_env_value fixture_str [''a.b.c'' \<mapsto> ''''] ''a.b.c'' (Some ''fallback'')
     = Some ''fallback''"
proof -
  have 1: "get_env_value fixture_str [''a.b.c'' \<mapsto> ''literal'', ''A_B_C'' \<mapsto> ''alias'']
             ''a.b.c'' None = Some ''literal''"
    using get_env_value_lookup_order
      [where ps = fixture_str and environ = "[''a.b.c'' \<mapsto> ''literal'', ''A_B_C'' \<mapsto> ''alias'']"
         and key = "''a.b.c''" and e = "''literal''" and dflt = None]
    by simp
  have 2: "get_env_value fixture_str [''a.b.c'' \<mapsto> '''', ''A_B_C'' \<mapsto> ''alias''] ''a.b.c'' None
             = Some ''alias''"
    using get_env_value_lookup_order
      [where ps = fixture_str and environ = "[''a.b.c'' \<mapsto> '''', ''A_B_C'' \<mapsto> ''alias'']"
         and key = "''a.b.c''" and e = "''alias''" and dflt = None]
    by (simp add: alias_abc)
  have 3: "get_env_value fixture_str [''a.b.c'' \<mapsto> ''''] ''a.b.c'' (Some ''fallback'')
             = Some ''fallback''"
    using get_env_value_lookup_order
      [where ps = fixture_str and environ = "[''a.b.c'' \<mapsto> '''']"
         and key = "''a.b.c''" and dflt = "Some ''fallback''"]
    by (simp add: alias_abc)
  from 1 2 3 show ?thesis by simp
qed

section \<open>The profile\<close>

text \<open>
  Claim C8. \<open>get_profile\<close> returns the lowercased value of the environment variable
  \<^verbatim>\<open>application.profile\<close>, or of \<^verbatim>\<open>APPLICATION_PROFILE\<close> when the former is unset or
  empty, and the string \<^verbatim>\<open>local\<close> when neither has a non-empty value. The lowercased
  value is what \<^verbatim>\<open>str.lower\<close> gives, for every behaviour of it on non-ASCII values. The
  result does not depend on the object, hence not on any settings file.
\<close>

theorem get_profile_from_environment:
  "(environ ''application.profile'' = Some e \<and> e \<noteq> []
      \<longrightarrow> get_profile ps self environ = lower ps e)
   \<and> ((environ ''application.profile'' = None \<or> environ ''application.profile'' = Some [])
        \<and> environ ''APPLICATION_PROFILE'' = Some e \<and> e \<noteq> []
      \<longrightarrow> get_profile ps self environ = lower ps e)
   \<and> ((environ ''application.profile'' = None \<or> environ ''application.profile'' = Some [])
        \<and> (environ ''APPLICATION_PROFILE'' = None \<or> environ ''APPLICATION_PROFILE'' = Some [])
      \<longrightarrow> get_profile ps self environ = ''local'')
   \<and> get_profile ps self environ = get_profile ps self' environ"
  by (auto simp: get_profile_def get_env_value_def alias_profile Let_def)

text \<open>
  The profile from the literal name, from the uppercase name, and the default; in the
  first and the last the dictionary has an entry \<^verbatim>\<open>application.profile\<close>, which is not
  read.
\<close>

theorem get_profile_from_environment_witness:
  "get_profile fixture_str \<lparr>config = [''application.profile'' \<mapsto> VStr ''prod'']\<rparr>
      [''application.profile'' \<mapsto> ''Test''] = ''test''
   \<and> get_profile fixture_str \<lparr>config = Map.empty\<rparr> [''APPLICATION_PROFILE'' \<mapsto> ''PROD''] = ''prod''
   \<and> get_profile fixture_str \<lparr>config = [''application.profile'' \<mapsto> VStr ''prod'']\<rparr> Map.empty
       = ''local''"
proof -
  have 1: "get_profile fixture_str \<lparr>config = [''application.profile'' \<mapsto> VStr ''prod'']\<rparr>
      [''application.profile'' \<mapsto> ''Test''] = ''test''"
    using get_profile_from_environment
      [where ps = fixture_str and environ = "[''application.profile'' \<mapsto> ''Test'']"
         and e = "''Test''"
         and self = "\<lparr>config = [''application.profile'' \<mapsto> VStr ''prod'']\<rparr>"]
    by (simp add: lower_Test)
  have 2: "get_profile fixture_str \<lparr>config = Map.empty\<rparr> [''APPLICATION_PROFILE'' \<mapsto> ''PROD'']
             = ''prod''"
    using get_profile_from_environment
      [where ps = fixture_str and environ = "[''APPLICATION_PROFILE'' \<mapsto> ''PROD'']"
         and e = "''PROD''" and self = "\<lparr>config = Map.empty\<rparr>"]
    by (simp add: lower_PROD)
  have 3: "get_profile fixture_str \<lparr>config = [''application.profile'' \<mapsto> VStr ''prod'']\<rparr>
             Map.empty = ''local''"
    using get_profile_from_environment
      [where ps = fixture_str and environ = Map.empty
         and self = "\<lparr>config = [''application.profile'' \<mapsto> VStr ''prod'']\<rparr>"]
    by simp
  from 1 2 3 show ?thesis by simp
qed

section \<open>The dataset name\<close>

text \<open>
  Claim C9. \<open>get_dataset_name\<close> returns the base name unchanged when the profile is
  \<^verbatim>\<open>prod\<close>, \<^verbatim>\<open>staging\<close> or \<^verbatim>\<open>ci\<close>, the base name followed by \<^verbatim>\<open>_qa\<close> when the profile is
  \<^verbatim>\<open>local\<close>, and the base name, an underscore and the profile for every other profile.
  Two calls with the same profile and base name give the same result.
\<close>

theorem get_dataset_name_by_profile:
  "(get_profile ps self environ \<in> {''prod'', ''staging'', ''ci''}
      \<longrightarrow> get_dataset_name ps self environ base_name = base_name)
   \<and> (get_profile ps self environ = ''local''
      \<longrightarrow> get_dataset_name ps self environ base_name = base_name @ ''_qa'')
   \<and> (get_profile ps self environ \<notin> {''prod'', ''staging'', ''ci'', ''local''}
      \<longrightarrow> get_dataset_name ps self environ base_name
            = base_name @ ''_'' @ get_profile ps self environ)
   \<and> (get_profile ps self environ = get_profile ps' self' environ'
      \<longrightarrow> get_dataset_name ps self environ base_name
            = get_dataset_name ps' self' environ' base_name)"
  by (auto simp: get_dataset_name_def Let_def)

text \<open>The base name \<^verbatim>\<open>x\<close> under the profiles \<^verbatim>\<open>prod\<close>, \<^verbatim>\<open>local\<close> (unset) and \<^verbatim>\<open>dev\<close>.\<close>

theorem get_dataset_name_by_profile_witness:
  "get_dataset_name fixture_str \<lparr>config = Map.empty\<rparr> [''APPLICATION_PROFILE'' \<mapsto> ''prod''] ''x''
     = ''x''
   \<and> get_dataset_name fixture_str \<lparr>config = Map.empty\<rparr> Map.empty ''x'' = ''x_qa''
   \<and> get_dataset_name fixture_str \<lparr>config = Map.empty\<rparr> [''APPLICATION_PROFILE'' \<mapsto> ''dev''] ''x''
     = ''x_dev''"
proof -
  have 1: "get_dataset_name fixture_str \<lparr>config = Map.empty\<rparr>
             [''APPLICATION_PROFILE'' \<mapsto> ''prod''] ''x'' = ''x''"
    using get_dataset_name_by_profile
      [where ps = fixture_str and self = "\<lparr>config = Map.empty\<rparr>"
         and environ = "[''APPLICATION_PROFILE'' \<mapsto> ''prod'']" and base_name = "''x''"]
    by (simp add: profile_prod)
  have 2: "get_dataset_name fixture_str \<lparr>config = Map.empty\<rparr> Map.empty ''x'' = ''x_qa''"
    using get_dataset_name_by_profile
      [where ps = fixture_str and self = "\<lparr>config = Map.empty\<rparr>" and environ = Map.empty
         and base_name = "''x''"]
    by (simp add: profile_unset)
  have 3: "get_dataset_name fixture_str \<lparr>config = Map.empty\<rparr>
             [''APPLICATION_PROFILE'' \<mapsto> ''dev''] ''x'' = ''x_dev''"
    using get_dataset_name_by_profile
      [where ps = fixture_str and self = "\<lparr>config = Map.empty\<rparr>"
         and environ = "[''APPLICATION_PROFILE'' \<mapsto> ''dev'']" and base_name = "''x''"]
    by (simp add: profile_dev)
  from 1 2 3 show ?thesis by simp
qed

section \<open>Construction always raises\<close>

text \<open>
  Claim C10. For every argument list, every environment and every behaviour of the
  collaborators, the constructor raises: its first call of
  \<^verbatim>\<open>_populate_with_values_from_yml\<close> passes one argument where two are required, which is
  a \<^verbatim>\<open>TypeError\<close> before the method's body runs, so before any file is read or merged.
  Called with both arguments the method raises \<^verbatim>\<open>NameError\<close>, since \<^verbatim>\<open>build_path\<close> reads
  the unbound name \<^verbatim>\<open>cls\<close>. No object, with a filled dictionary or an empty one, is
  ever returned.
\<close>

theorem init_always_raises:
  "init ps rt environ args kwargs = Inl TypeError
   \<and> (\<forall>r. init ps rt environ args kwargs \<noteq> Inr r)
   \<and> call_populate ps rt self [config_file] = Inl TypeError
   \<and> populate_with_values_from_yml ps rt self config_file rootdir = Inl NameError
   \<and> build_path rt filename rootdir = Inl NameError"
  by (simp add: init_def call_populate_def populate_with_values_from_yml_def build_path_def
      name_bound_def build_path_locals_def module_globals_def Let_def)

text \<open>The run-time with both files present, profile \<^verbatim>\<open>test\<close>.\<close>

theorem init_always_raises_witness:
  "init fixture_str fixture_rt [''APPLICATION_PROFILE'' \<mapsto> ''test''] [] [] = Inl TypeError
   \<and> populate_with_values_from_yml fixture_str fixture_rt \<lparr>config = Map.empty\<rparr>
        ''resources/application.yml'' ''/app'' = Inl NameError
   \<and> build_path fixture_rt ''resources/application.yml'' ''/app'' = Inl NameError"
  using init_always_raises
    [where ps = fixture_str and rt = fixture_rt
       and environ = "[''APPLICATION_PROFILE'' \<mapsto> ''test'']" and args = "[]" and kwargs = "[]"
       and self = "\<lparr>config = Map.empty\<rparr>" and config_file = "''resources/application.yml''"
       and rootdir = "''/app''" and filename = "''resources/application.yml''"]
  by simp

end
